theory Spec2Isabelle
  imports Main
begin

section \<open>Data model of \<open>returnTracking.ts\<close>\<close>

text \<open>
  Source positions. \<open>util.createRangeFromPositions\<close> of the host library builds the
  range that starts at its first argument and ends at its second.
\<close>

type_synonym Position = "nat \<times> nat"

record Range =
  range_start :: Position
  range_end :: Position

definition createRangeFromPositions :: "Position \<Rightarrow> Position \<Rightarrow> Range" where
  "createRangeFromPositions s e = \<lparr>range_start = s, range_end = e\<rparr>"

text \<open>
  Tokens of the function signature. Only the kinds \<open>TokenKind.Void\<close> and
  \<open>TokenKind.Function\<close> are tested by the code; \<open>Sub\<close> and \<open>OtherKind\<close> stand for the
  remaining kinds of the host library's enumeration.
\<close>

datatype TokenKind = Void | Function | Sub | OtherKind

record Token =
  kind :: TokenKind
  token_range :: Range

record FunctionExpression =
  functionType :: "Token option"
  leftParen :: Token
  rightParen :: Token
  returnTypeToken :: "Token option"

text \<open>
  Statements, as far as the linter looks at them: the three recognisers
  \<open>isCommentStatement\<close>, \<open>isReturnStatement\<close> and \<open>isIfStatement\<close>, the \<open>range\<close> of a
  statement (read with a fallback in the finalizer, hence optional), the \<open>value\<close> of a
  return statement (optional, and possibly a comment taken for an operand) and the
  \<open>elseIfs\<close> array of an if statement, of which only the length is read.
\<close>

datatype Expression = CommentExpression | ValueExpression

datatype ElseIf = ElseIfArm

datatype Statement =
    CommentStatement "Range option"
  | ReturnStatement "Range option" "Expression option"
  | IfStatement "Range option" "ElseIf list"
  | Block "Range option"
  | OtherStatement "Range option"

fun stat_range :: "Statement \<Rightarrow> Range option" where
  "stat_range (CommentStatement r) = r"
| "stat_range (ReturnStatement r v) = r"
| "stat_range (IfStatement r es) = r"
| "stat_range (Block r) = r"
| "stat_range (OtherStatement r) = r"

fun isCommentStatement :: "Statement \<Rightarrow> bool" where
  "isCommentStatement (CommentStatement r) = True"
| "isCommentStatement s = False"

fun isReturnStatement :: "Statement \<Rightarrow> bool" where
  "isReturnStatement (ReturnStatement r v) = True"
| "isReturnStatement s = False"

fun isIfStatement :: "Statement \<Rightarrow> bool" where
  "isIfStatement (IfStatement r es) = True"
| "isIfStatement s = False"

fun isBlock :: "Statement \<Rightarrow> bool" where
  "isBlock (Block r) = True"
| "isBlock s = False"

fun isCommentExpression :: "Expression \<Rightarrow> bool" where
  "isCommentExpression CommentExpression = True"
| "isCommentExpression ValueExpression = False"

text \<open>
  \<open>!!curr.stat.value && !isCommentStatement(curr.stat.value)\<close>: the operand is present and
  is not a comment.
\<close>

fun returnHasValue :: "Statement \<Rightarrow> bool" where
  "returnHasValue (ReturnStatement r (Some e)) = (\<not> isCommentExpression e)"
| "returnHasValue s = False"

text \<open>
  \<open>StatementInfo\<close>: the frame of an open block. Both \<open>branches\<close> and \<open>returns\<close> are
  optional fields of the interface (the code reads them with \<open>??\<close> and by truthiness);
  \<open>branches\<close> is a JavaScript number and may become negative.
\<close>

record StatementInfo =
  stat :: Statement
  branches :: "int option"
  returns :: "bool option"

definition truthy :: "bool option \<Rightarrow> bool" where
  "truthy b = (case b of None \<Rightarrow> False | Some v \<Rightarrow> v)"

text \<open>
  Frames are JavaScript objects shared by reference between the traversal driver and the
  linter, so they live in a store, and \<open>LintState\<close> holds references into it.
\<close>

type_synonym addr = nat

type_synonym store = "addr \<Rightarrow> StatementInfo"

record LintState =
  parent :: "addr option"
  ifs :: "addr option"
  branch :: "addr option"

record ReturnInfo =
  ret_stat :: Statement
  hasValue :: bool

datatype ReturnLintError =
    UnreachableCode
  | ReturnValueUnexpected
  | ReturnValueExpected
  | UnsafeReturnValue
  | ReturnValueRequired
  | ReturnValueMissing
  | LastReturnValueMissing

fun error_code :: "ReturnLintError \<Rightarrow> nat" where
  "error_code UnreachableCode = 2011"
| "error_code ReturnValueUnexpected = 2012"
| "error_code ReturnValueExpected = 2013"
| "error_code UnsafeReturnValue = 2014"
| "error_code ReturnValueRequired = 2015"
| "error_code ReturnValueMissing = 2016"
| "error_code LastReturnValueMissing = 2017"

text \<open>
  Modelled from the spec: the severity scale of the rule configuration (its declaration
  \<open>BsLintRules\<close> is not part of this file); the linter copies a configured severity into
  a diagnostic and never inspects it.
\<close>

datatype Severity = Off | Hint | Info | Warning | Error

record BsLintRules =
  unreachableCode :: Severity
  consistentReturn :: Severity

datatype DiagnosticTag = Unnecessary

type_synonym BscFile = string

record BsDiagnostic =
  severity :: Severity
  code :: ReturnLintError
  message :: string
  diag_range :: "Range option"
  diag_file :: BscFile
  tags :: "DiagnosticTag list"

text \<open>
  The state the linter closure owns or is handed: the store of frames, the \<open>returns\<close>
  array of the closure and the \<open>diagnostics\<close> array it pushes to.
\<close>

record Linter =
  heap :: store
  fun_returns :: "ReturnInfo list"
  diagnostics :: "BsDiagnostic list"

section \<open>The linter\<close>

definition parentReturns :: "LintState \<Rightarrow> Linter \<Rightarrow> bool" where
  "parentReturns state s =
     (case parent state of None \<Rightarrow> False | Some p \<Rightarrow> truthy (returns (heap s p)))"

definition parentBranchesIsOne :: "LintState \<Rightarrow> Linter \<Rightarrow> bool" where
  "parentBranchesIsOne state s =
     (case parent state of None \<Rightarrow> False | Some p \<Rightarrow> branches (heap s p) = Some 1)"

definition unreachableDiagnostic :: "BsLintRules \<Rightarrow> BscFile \<Rightarrow> Statement \<Rightarrow> BsDiagnostic" where
  "unreachableDiagnostic sev f st =
     \<lparr>severity = unreachableCode sev, code = UnreachableCode,
      message = ''Unreachable code'', diag_range = stat_range st, diag_file = f,
      tags = [Unnecessary]\<rparr>"

definition markReturns :: "addr \<Rightarrow> store \<Rightarrow> store" where
  "markReturns a h = h(a := (h a)\<lparr>returns := Some True\<rparr>)"

definition returnBlock :: "LintState \<Rightarrow> addr option" where
  "returnBlock state = (if ifs state \<noteq> None then branch state else parent state)"

definition visitStatement ::
  "BsLintRules \<Rightarrow> BscFile \<Rightarrow> LintState \<Rightarrow> StatementInfo \<Rightarrow> Linter \<Rightarrow> Linter" where
  "visitStatement sev f state cur s =
     (if parentReturns state s then
        (if \<not> isCommentStatement (stat cur)
         then s\<lparr>diagnostics := diagnostics s @ [unreachableDiagnostic sev f (stat cur)]\<rparr>
         else s)
      else if isReturnStatement (stat cur) then
        (let s1 = s\<lparr>fun_returns := fun_returns s @
                     [\<lparr>ret_stat = stat cur, hasValue = returnHasValue (stat cur)\<rparr>]\<rparr>
         in (case returnBlock state of
               None \<Rightarrow> s1
             | Some rb \<Rightarrow>
                 if parentBranchesIsOne state s1
                 then s1\<lparr>heap := markReturns rb (heap s1)\<rparr>
                 else s1))
      else s)"

fun branchesCount :: "StatementInfo \<Rightarrow> int" where
  "branchesCount b =
     (case stat b of IfStatement r es \<Rightarrow> 1 + int (length es) + 1 | _ \<Rightarrow> 2)"

text \<open>
  \<open>isBranchedBlock\<close> is imported from the plugin's index module; it is a parameter of
  \<open>openBlock\<close> here.
\<close>

definition openBlock :: "(StatementInfo \<Rightarrow> bool) \<Rightarrow> addr \<Rightarrow> Linter \<Rightarrow> Linter" where
  "openBlock isBranchedBlock block s =
     (let b = heap s block in
      if isBranchedBlock b
      then s\<lparr>heap := (heap s)(block := b\<lparr>branches := Some (branchesCount b)\<rparr>)\<rparr>
      else s\<lparr>heap := (heap s)(block := b\<lparr>branches := Some 1\<rparr>)\<rparr>)"

definition funRange :: "FunctionExpression \<Rightarrow> Range" where
  "funRange func =
     createRangeFromPositions
       (range_start (token_range (case functionType func of Some t \<Rightarrow> t | None \<Rightarrow> leftParen func)))
       (range_end (token_range (case returnTypeToken func of Some t \<Rightarrow> t | None \<Rightarrow> rightParen func)))"

definition returnTypeIsVoid :: "FunctionExpression \<Rightarrow> bool" where
  "returnTypeIsVoid func =
     (case returnTypeToken func of None \<Rightarrow> False | Some t \<Rightarrow> kind t = Void)"

definition functionTypeIsFunction :: "FunctionExpression \<Rightarrow> bool" where
  "functionTypeIsFunction func =
     (case functionType func of None \<Rightarrow> False | Some t \<Rightarrow> kind t = Function)"

definition rangeOr :: "Range option \<Rightarrow> Range \<Rightarrow> Range" where
  "rangeOr r d = (case r of None \<Rightarrow> d | Some x \<Rightarrow> x)"

definition unexpectedDiagnostic ::
  "BsLintRules \<Rightarrow> BscFile \<Rightarrow> FunctionExpression \<Rightarrow> ReturnInfo \<Rightarrow> BsDiagnostic" where
  "unexpectedDiagnostic sev f func r =
     \<lparr>severity = consistentReturn sev, code = ReturnValueUnexpected,
      message = ''Function as void should not return a value'',
      diag_range = Some (rangeOr (stat_range (ret_stat r)) (funRange func)), diag_file = f,
      tags = []\<rparr>"

definition unsafeDiagnostic ::
  "BsLintRules \<Rightarrow> BscFile \<Rightarrow> FunctionExpression \<Rightarrow> BsDiagnostic" where
  "unsafeDiagnostic sev f func =
     \<lparr>severity = consistentReturn sev, code = UnsafeReturnValue,
      message = ''Not all code paths return a value'',
      diag_range = Some (funRange func), diag_file = f, tags = []\<rparr>"

definition missingDiagnostic ::
  "BsLintRules \<Rightarrow> BscFile \<Rightarrow> FunctionExpression \<Rightarrow> ReturnInfo \<Rightarrow> BsDiagnostic" where
  "missingDiagnostic sev f func r =
     \<lparr>severity = consistentReturn sev, code = ReturnValueMissing,
      message = ''This function should consistently return a value'',
      diag_range = Some (rangeOr (stat_range (ret_stat r)) (funRange func)), diag_file = f,
      tags = []\<rparr>"

definition requiresReturnValue :: "FunctionExpression \<Rightarrow> ReturnInfo list \<Rightarrow> bool" where
  "requiresReturnValue func rs =
     (returnTypeToken func \<noteq> None \<or> length (filter hasValue rs) > 0 \<or>
      (functionTypeIsFunction func \<and> length rs > 0))"

definition finalize ::
  "BsLintRules \<Rightarrow> BscFile \<Rightarrow> FunctionExpression \<Rightarrow> addr \<Rightarrow> Linter \<Rightarrow> Linter" where
  "finalize sev f func lst s =
     (let returnedValues = filter hasValue (fun_returns s);
          hasReturnedValue = (length returnedValues > 0)
      in if returnTypeIsVoid func then
           (if hasReturnedValue
            then s\<lparr>diagnostics := diagnostics s @
                     map (unexpectedDiagnostic sev f func) returnedValues\<rparr>
            else s)
         else
           (let requires = requiresReturnValue func (fun_returns s);
                missingValue = (requires \<and> length returnedValues \<noteq> length (fun_returns s));
                missingBranches = (\<not> truthy (returns (heap s lst)));
                s1 = (if (requires \<or> hasReturnedValue) \<and>
                         (missingBranches \<or> length (fun_returns s) = 0)
                      then s\<lparr>diagnostics := diagnostics s @ [unsafeDiagnostic sev f func]\<rparr>
                      else s)
            in if missingValue
               then s1\<lparr>diagnostics := diagnostics s1 @
                        map (missingDiagnostic sev f func)
                          (filter (\<lambda>r. \<not> hasValue r) (fun_returns s1))\<rparr>
               else s1))"

definition closeBlock ::
  "BsLintRules \<Rightarrow> BscFile \<Rightarrow> FunctionExpression \<Rightarrow> LintState \<Rightarrow> addr \<Rightarrow> Linter \<Rightarrow> Linter" where
  "closeBlock sev f func state closed s =
     (case parent state of
        None \<Rightarrow> finalize sev f func closed s
      | Some p \<Rightarrow>
          if isIfStatement (stat (heap s closed)) then
            (if branches (heap s closed) = Some 0
             then s\<lparr>heap := markReturns p (heap s)\<rparr>
             else s)
          else if truthy (returns (heap s closed)) then
            (if isIfStatement (stat (heap s p))
             then s\<lparr>heap := (heap s)(p := (heap s p)
                    \<lparr>branches := Some ((case branches (heap s p) of None \<Rightarrow> 2 | Some n \<Rightarrow> n) - 1)\<rparr>)\<rparr>
             else s)
          else s)"

text \<open>The \<open>elseIfs\<close> array of an if statement (read by \<open>branchesCount\<close> for its length).\<close>

fun elseIfs :: "Statement \<Rightarrow> ElseIf list" where
  "elseIfs (IfStatement r es) = es"
| "elseIfs s = []"

text \<open>
  The driver visiting a run of statements at one position: \<open>visitStatement\<close> called for
  each in turn under the same \<open>LintState\<close>.
\<close>

fun visitStatements ::
  "BsLintRules \<Rightarrow> BscFile \<Rightarrow> LintState \<Rightarrow> StatementInfo list \<Rightarrow> Linter \<Rightarrow> Linter" where
  "visitStatements sev f state [] s = s"
| "visitStatements sev f state (c # cs) s =
     visitStatements sev f state cs (visitStatement sev f state c s)"

text \<open>The diagnostics pushed between two states of the linter.\<close>

definition emitted :: "Linter \<Rightarrow> Linter \<Rightarrow> BsDiagnostic list" where
  "emitted s s' = drop (length (diagnostics s)) (diagnostics s')"

section \<open>The traversal driver\<close>

text \<open>
  Modelled from the spec: the statement tree the traversal driver walks (the driver and the
  tree are not part of \<open>returnTracking.ts\<close>). A \<open>Leaf\<close> is a statement without nested
  statements; a \<open>Container\<close> is a ``statement that can contain nested statements'', with
  its nested statements in source order. The arms of a conditional construct are its
  nested blocks.
\<close>

datatype Node = Leaf Statement | Container Statement "Node list"

text \<open>
  Modelled from the spec: the \<open>StatementInfo\<close> object the driver creates for the statement
  it visits, with neither \<open>branches\<close> nor \<open>returns\<close> set; for a container the same object
  becomes the pushed frame.
\<close>

definition newFrame :: "Statement \<Rightarrow> StatementInfo" where
  "newFrame st = \<lparr>stat = st, branches = None, returns = None\<rparr>"

text \<open>
  Modelled from the spec: ``whether the current position is inside a conditional arm''. A
  container entered directly under the frame of a conditional construct is one of its
  arms.
\<close>

definition insideArm :: "LintState \<Rightarrow> Linter \<Rightarrow> bool" where
  "insideArm state s =
     (case parent state of None \<Rightarrow> False | Some p \<Rightarrow> isIfStatement (stat (heap s p)))"

text \<open>
  Modelled from the spec: the contextual stack state the callbacks read while the
  statements nested in the frame \<open>a\<close> are visited. \<open>parent\<close> is the new top of the stack;
  on entering an arm, \<open>ifs\<close> is the frame of the conditional construct and \<open>branch\<close> the
  arm's frame; any other container leaves both as they are. The state of the enclosing
  position is in force again after the container is left.
\<close>

definition enter :: "addr \<Rightarrow> LintState \<Rightarrow> Linter \<Rightarrow> LintState" where
  "enter a state s =
     (if insideArm state s
      then \<lparr>parent = Some a, ifs = parent state, branch = Some a\<rparr>
      else \<lparr>parent = Some a, ifs = ifs state, branch = branch state\<rparr>)"

text \<open>
  Modelled from the spec: the depth-first traversal. ``\<open>visitStatement\<close> is invoked for
  every statement, exactly once, in source order, including those already passed to
  \<open>openBlock\<close>/\<open>closeBlock\<close>''; \<open>openBlock\<close> is called on entering a container and pushes
  its frame; \<open>closeBlock\<close> is called on leaving it, after the pop, so that it reads the
  enclosing frame as parent. The stack is ``an explicit growable sequence of BlockFrame
  records with index-based parent linkage'': the frame pushed at depth \<open>d\<close> lives at address
  \<open>d\<close> of the store.
\<close>

fun walk ::
  "BsLintRules \<Rightarrow> BscFile \<Rightarrow> FunctionExpression \<Rightarrow> (StatementInfo \<Rightarrow> bool) \<Rightarrow>
   nat \<Rightarrow> LintState \<Rightarrow> Node \<Rightarrow> Linter \<Rightarrow> Linter"
and walks ::
  "BsLintRules \<Rightarrow> BscFile \<Rightarrow> FunctionExpression \<Rightarrow> (StatementInfo \<Rightarrow> bool) \<Rightarrow>
   nat \<Rightarrow> LintState \<Rightarrow> Node list \<Rightarrow> Linter \<Rightarrow> Linter" where
  "walk sev f func isBB d state (Leaf st) s = visitStatement sev f state (newFrame st) s"
| "walk sev f func isBB d state (Container st kids) s =
     (let s1 = visitStatement sev f state (newFrame st) s;
          s2 = s1\<lparr>heap := (heap s1)(d := newFrame st)\<rparr>;
          s3 = openBlock isBB d s2;
          s4 = walks sev f func isBB (Suc d) (enter d state s3) kids s3
      in closeBlock sev f func state d s4)"
| "walks sev f func isBB d state [] s = s"
| "walks sev f func isBB d state (n # ns) s =
     walks sev f func isBB d state ns (walk sev f func isBB d state n s)"

text \<open>
  Modelled from the spec: the analysis of one function; the driver walks the function body
  from an empty stack with fresh \<open>returns\<close> and \<open>diagnostics\<close> arrays, and the finalizer
  runs when the body's frame is closed.
\<close>

definition analyse ::
  "BsLintRules \<Rightarrow> BscFile \<Rightarrow> FunctionExpression \<Rightarrow> (StatementInfo \<Rightarrow> bool) \<Rightarrow>
   Node \<Rightarrow> store \<Rightarrow> Linter" where
  "analyse sev f func isBB body h =
     walk sev f func isBB 0 \<lparr>parent = None, ifs = None, branch = None\<rparr> body
       \<lparr>heap = h, fun_returns = [], diagnostics = []\<rparr>"

section \<open>Execution paths\<close>

text \<open>
  Every execution path through a statement ends in a return: a return statement, or a
  conditional construct with an else arm (one arm more than \<open>1 + elseIfs.length\<close>) all of
  whose arms do. Any other statement with nested statements (a loop, say) may be passed
  without its nested statements being executed. Every path through a block (an arm, the
  function body) ends in a return when one of its statements is such a statement.
\<close>

fun alwaysReturns :: "Node \<Rightarrow> bool"
and blockReturns :: "Node \<Rightarrow> bool" where
  "alwaysReturns (Leaf st) = isReturnStatement st"
| "alwaysReturns (Container st kids) =
     (isIfStatement st \<and> length kids = length (elseIfs st) + 2 \<and> list_all blockReturns kids)"
| "blockReturns (Leaf st) = False"
| "blockReturns (Container b ss) = list_ex alwaysReturns ss"

text \<open>
  Every return statement on an execution path carries a value. In a sequence the
  statements after one through which every path returns are on no path.
\<close>

fun valuePaths :: "Node \<Rightarrow> bool"
and seqValuePaths :: "Node list \<Rightarrow> bool" where
  "valuePaths (Leaf st) = (if isReturnStatement st then returnHasValue st else True)"
| "valuePaths (Container st kids) =
     (if isIfStatement st then list_all valuePaths kids else seqValuePaths kids)"
| "seqValuePaths [] = True"
| "seqValuePaths (n # ns) = (valuePaths n \<and> (alwaysReturns n \<or> seqValuePaths ns))"





section \<open>What the tracker marks\<close>











text \<open>
  What walking a statement does to the linter: \<open>quiet q g\<close> steps push no diagnostic, keep
  the frames below \<open>q\<close> other than \<open>g\<close> and append returns that carry a value; \<open>stepped\<close>
  adds whether the frame \<open>q\<close> and the arm \<open>g\<close> are marked as returning; \<open>armStepped\<close> that
  the conditional construct \<open>d\<close> has one branch less exactly when the arm is marked.
\<close>

definition quiet :: "addr \<Rightarrow> addr \<Rightarrow> Linter \<Rightarrow> Linter \<Rightarrow> bool" where
  "quiet q g s s' =
     (diagnostics s' = diagnostics s \<and> (\<forall>a<q. a \<noteq> g \<longrightarrow> heap s' a = heap s a) \<and>
      (\<exists>rs. fun_returns s' = fun_returns s @ rs \<and> list_all hasValue rs))"

definition marked :: "StatementInfo \<Rightarrow> StatementInfo" where
  "marked b = b\<lparr>returns := Some True\<rparr>"




section \<open>Example inputs\<close>

definition ex_range :: Range where
  "ex_range = \<lparr>range_start = (1, 0), range_end = (1, 8)\<rparr>"

definition ex_function :: FunctionExpression where
  "ex_function =
     \<lparr>functionType = Some \<lparr>kind = Function, token_range = \<lparr>range_start = (0, 0), range_end = (0, 8)\<rparr>\<rparr>,
      leftParen = \<lparr>kind = OtherKind, token_range = \<lparr>range_start = (0, 10), range_end = (0, 11)\<rparr>\<rparr>,
      rightParen = \<lparr>kind = OtherKind, token_range = \<lparr>range_start = (0, 11), range_end = (0, 12)\<rparr>\<rparr>,
      returnTypeToken = Some \<lparr>kind = OtherKind, token_range = \<lparr>range_start = (0, 16), range_end = (0, 23)\<rparr>\<rparr>\<rparr>"

definition ex_void_function :: FunctionExpression where
  "ex_void_function =
     ex_function\<lparr>returnTypeToken :=
       Some \<lparr>kind = Void, token_range = \<lparr>range_start = (0, 16), range_end = (0, 20)\<rparr>\<rparr>\<rparr>"

definition ex_rules :: BsLintRules where
  "ex_rules = \<lparr>unreachableCode = Info, consistentReturn = Error\<rparr>"

definition ex_frame :: "Statement \<Rightarrow> StatementInfo" where
  "ex_frame st = \<lparr>stat = st, branches = None, returns = None\<rparr>"

definition ex_linter :: "ReturnInfo list \<Rightarrow> Linter" where
  "ex_linter rs = \<lparr>heap = (\<lambda>a. ex_frame (Block None)), fun_returns = rs, diagnostics = []\<rparr>"

definition ex_value_return :: Statement where
  "ex_value_return = ReturnStatement (Some ex_range) (Some ValueExpression)"

definition ex_bare_return :: Statement where
  "ex_bare_return = ReturnStatement None None"

definition ex_store :: store where
  "ex_store =
     (\<lambda>a. ex_frame (Block None))
       (0 := \<lparr>stat = Block None, branches = Some 1, returns = None\<rparr>,
        1 := \<lparr>stat = IfStatement None [], branches = Some 2, returns = None\<rparr>,
        2 := \<lparr>stat = Block None, branches = Some 1, returns = None\<rparr>,
        3 := \<lparr>stat = Block None, branches = Some 1, returns = Some True\<rparr>)"

definition ex_state :: "addr option \<Rightarrow> addr option \<Rightarrow> addr option \<Rightarrow> LintState" where
  "ex_state p i b = \<lparr>parent = p, ifs = i, branch = b\<rparr>"

definition ex_open :: Linter where
  "ex_open = \<lparr>heap = ex_store, fun_returns = [], diagnostics = []\<rparr>"

lemmas ex_defs = ex_range_def ex_function_def ex_void_function_def ex_rules_def ex_frame_def
  ex_linter_def ex_value_return_def ex_bare_return_def

definition ex_isBranchedBlock :: "StatementInfo \<Rightarrow> bool" where
  "ex_isBranchedBlock b = isIfStatement (stat b)"

definition ex_loopsBranch :: "StatementInfo \<Rightarrow> bool" where
  "ex_loopsBranch b = (\<not> isBlock (stat b))"

definition ex_return :: Node where
  "ex_return = Leaf (ReturnStatement (Some ex_range) (Some ValueExpression))"

definition ex_return_bare :: Node where
  "ex_return_bare = Leaf (ReturnStatement (Some ex_range) None)"

definition ex_statement :: Node where
  "ex_statement = Leaf (OtherStatement (Some ex_range))"

definition ex_comment :: Node where
  "ex_comment = Leaf (CommentStatement (Some ex_range))"

definition ex_block :: "Node list \<Rightarrow> Node" where
  "ex_block ss = Container (Block None) ss"

definition ex_if_else :: "Node list \<Rightarrow> Node list \<Rightarrow> Node" where
  "ex_if_else a b = Container (IfStatement None []) [ex_block a, ex_block b]"

definition ex_if :: "Node list \<Rightarrow> Node" where
  "ex_if a = Container (IfStatement None []) [ex_block a]"

definition ex_loop :: "Node list \<Rightarrow> Node" where
  "ex_loop ss = Container (OtherStatement None) [ex_block ss]"

definition ex_dead_code :: Node where
  "ex_dead_code = ex_block [ex_return, ex_return]"

definition ex_loop_in_arm :: Node where
  "ex_loop_in_arm =
     ex_block [ex_if_else [ex_loop [ex_return], ex_return] [ex_return]]"

definition ex_bare_off_path :: Node where
  "ex_bare_off_path =
     ex_block [Container (OtherStatement None) [ex_return, ex_return_bare], ex_return]"

definition ex_nested :: Node where
  "ex_nested =
     ex_block [ex_statement,
       ex_loop [ex_if [ex_return], ex_statement, ex_return, ex_comment],
       ex_if [ex_loop [ex_return, ex_statement]],
       ex_if_else [ex_if_else [ex_return, ex_comment] [ex_statement, ex_return]]
                  [ex_loop [ex_statement, ex_if_else [ex_return] [ex_return]],
                   ex_if [ex_return], ex_statement, ex_return]]"

lemmas ex_node_defs = ex_isBranchedBlock_def ex_loopsBranch_def ex_return_def
  ex_return_bare_def ex_statement_def ex_comment_def ex_block_def ex_if_else_def ex_if_def
  ex_loop_def ex_dead_code_def ex_loop_in_arm_def ex_bare_off_path_def ex_nested_def

section \<open>The finalizer\<close>


lemma finalize_heap: "heap (finalize sev f func lst s) = heap s"
  by (simp add: finalize_def Let_def)

lemma finalize_fun_returns: "fun_returns (finalize sev f func lst s) = fun_returns s"
  by (simp add: finalize_def Let_def)


lemma finalize_emitted:
  "emitted s (finalize sev f func lst s) =
     (if returnTypeIsVoid func
      then map (unexpectedDiagnostic sev f func) (filter hasValue (fun_returns s))
      else (if (requiresReturnValue func (fun_returns s) \<or> filter hasValue (fun_returns s) \<noteq> []) \<and>
               (\<not> truthy (returns (heap s lst)) \<or> fun_returns s = [])
            then [unsafeDiagnostic sev f func] else []) @
           (if requiresReturnValue func (fun_returns s) \<and>
               length (filter hasValue (fun_returns s)) \<noteq> length (fun_returns s)
            then map (missingDiagnostic sev f func) (filter (\<lambda>r. \<not> hasValue r) (fun_returns s))
            else []))"
  by (cases "fun_returns s = []") (auto simp add: finalize_def emitted_def Let_def)


lemma code_unexpected [simp]: "code (unexpectedDiagnostic sev f func r) = ReturnValueUnexpected"
  by (simp add: unexpectedDiagnostic_def)

lemma code_unsafe [simp]: "code (unsafeDiagnostic sev f func) = UnsafeReturnValue"
  by (simp add: unsafeDiagnostic_def)

lemma code_missing [simp]: "code (missingDiagnostic sev f func r) = ReturnValueMissing"
  by (simp add: missingDiagnostic_def)

lemma finalize_diagnostics_have_range:
  "list_all (\<lambda>d. diag_range d \<noteq> None) (emitted s (finalize sev f func lst s))"
  unfolding finalize_emitted list_all_iff
  by (auto simp add: unexpectedDiagnostic_def unsafeDiagnostic_def missingDiagnostic_def)

lemma filter_code_map_other:
  "(\<And>x. code (g x) \<noteq> c) \<Longrightarrow> filter (\<lambda>d. code d = c) (map g xs) = []"
  by (induction xs) auto

lemma filter_code_map_same:
  "(\<And>x. code (g x) = c) \<Longrightarrow> filter (\<lambda>d. code d = c) (map g xs) = map g xs"
  by (induction xs) auto

text \<open>
  Claim C1. When the declared return type is not \<open>void\<close>, the finalizer pushes the
  \<open>UnsafeReturnValue\<close> diagnostic (``Not all code paths return a value'') exactly once,
  at the range of the function signature, if (\<open>requiresReturnValue\<close> or some captured
  return carries a value) and (the \<open>returns\<close> flag of the closed outermost frame is not
  set, or no return was captured); otherwise it pushes none. \<open>requiresReturnValue\<close> holds
  iff a return type token is present, or some captured return carries a value, or the
  function type token is \<open>function\<close> and a return was captured.
\<close>

theorem finalize_unsafe_return_value:
  assumes "\<not> returnTypeIsVoid func"
  shows "filter (\<lambda>d. code d = UnsafeReturnValue) (emitted s (finalize sev f func lst s)) =
           (if (requiresReturnValue func (fun_returns s) \<or> (\<exists>r \<in> set (fun_returns s). hasValue r)) \<and>
               (\<not> truthy (returns (heap s lst)) \<or> length (fun_returns s) = 0)
            then [unsafeDiagnostic sev f func] else [])
         \<and> diag_range (unsafeDiagnostic sev f func) = Some (funRange func)
         \<and> requiresReturnValue func (fun_returns s) =
             (returnTypeToken func \<noteq> None \<or> (\<exists>r \<in> set (fun_returns s). hasValue r) \<or>
              (functionTypeIsFunction func \<and> fun_returns s \<noteq> []))"
proof -
  have ex: "(\<exists>r \<in> set (fun_returns s). hasValue r) = (filter hasValue (fun_returns s) \<noteq> [])"
    by (simp add: filter_empty_conv)
  have 1: "diag_range (unsafeDiagnostic sev f func) = Some (funRange func)"
    by (simp add: unsafeDiagnostic_def)
  have 2: "requiresReturnValue func (fun_returns s) =
             (returnTypeToken func \<noteq> None \<or> (\<exists>r \<in> set (fun_returns s). hasValue r) \<or>
              (functionTypeIsFunction func \<and> fun_returns s \<noteq> []))"
    unfolding ex by (simp add: requiresReturnValue_def)
  have 3: "filter (\<lambda>d. code d = UnsafeReturnValue) (emitted s (finalize sev f func lst s)) =
           (if (requiresReturnValue func (fun_returns s) \<or> (\<exists>r \<in> set (fun_returns s). hasValue r)) \<and>
               (\<not> truthy (returns (heap s lst)) \<or> length (fun_returns s) = 0)
            then [unsafeDiagnostic sev f func] else [])"
    unfolding ex using assms
    by (simp add: finalize_emitted filter_code_map_other)
  from 1 2 3 show ?thesis by blast
qed

text \<open>
  A function declared with a non-void return type whose only return carries a value, closed
  with an outermost frame that was never marked as returning.
\<close>

theorem finalize_unsafe_return_value_witness:
  "\<not> returnTypeIsVoid ex_function \<and>
   filter (\<lambda>d. code d = UnsafeReturnValue)
     (emitted (ex_linter [\<lparr>ret_stat = ex_value_return, hasValue = True\<rparr>])
        (finalize ex_rules ''main.brs'' ex_function 0
           (ex_linter [\<lparr>ret_stat = ex_value_return, hasValue = True\<rparr>]))) =
   [\<lparr>severity = Error, code = UnsafeReturnValue, message = ''Not all code paths return a value'',
     diag_range = Some \<lparr>range_start = (0, 0), range_end = (0, 23)\<rparr>, diag_file = ''main.brs'',
     tags = []\<rparr>]"
proof -
  have h: "\<not> returnTypeIsVoid ex_function"
    by (simp add: returnTypeIsVoid_def ex_defs)
  show ?thesis
    using h finalize_unsafe_return_value [OF h, where s = "ex_linter [\<lparr>ret_stat = ex_value_return, hasValue = True\<rparr>]"
        and lst = 0 and sev = ex_rules and f = "''main.brs''"]
    by (simp add: ex_defs truthy_def unsafeDiagnostic_def funRange_def createRangeFromPositions_def)
qed

lemma filter_not_nonempty:
  "length (filter P xs) \<noteq> length xs \<Longrightarrow> filter (\<lambda>x. \<not> P x) xs \<noteq> []"
  using sum_length_filter_compl [of P xs] by auto

text \<open>
  Claim C6. When the declared return type token is \<open>void\<close>, the diagnostics pushed by the
  finalizer are exactly one \<open>ReturnValueUnexpected\<close> for each captured return that carries
  a value, in order, each at the range of its return statement or, when that is missing,
  at the range of the function signature; nothing else is pushed, whatever the return
  history and the \<open>returns\<close> flag of the closed frame.
\<close>

theorem finalize_void_unexpected:
  assumes "returnTypeIsVoid func"
  shows "emitted s (finalize sev f func lst s) =
           map (unexpectedDiagnostic sev f func) (filter hasValue (fun_returns s))
         \<and> (\<forall>r. code (unexpectedDiagnostic sev f func r) = ReturnValueUnexpected
              \<and> diag_range (unexpectedDiagnostic sev f func r) =
                  Some (case stat_range (ret_stat r) of Some x \<Rightarrow> x | None \<Rightarrow> funRange func))"
  using assms
  by (simp add: finalize_emitted unexpectedDiagnostic_def rangeOr_def)

text \<open>
  A \<open>void\<close> function with a return carrying a value, a bare return, and a return carrying a
  value whose statement has no range.
\<close>

theorem finalize_void_unexpected_witness:
  "returnTypeIsVoid ex_void_function \<and>
   emitted (ex_linter [\<lparr>ret_stat = ex_value_return, hasValue = True\<rparr>,
                       \<lparr>ret_stat = ex_bare_return, hasValue = False\<rparr>,
                       \<lparr>ret_stat = ReturnStatement None (Some ValueExpression), hasValue = True\<rparr>])
     (finalize ex_rules ''main.brs'' ex_void_function 0
        (ex_linter [\<lparr>ret_stat = ex_value_return, hasValue = True\<rparr>,
                    \<lparr>ret_stat = ex_bare_return, hasValue = False\<rparr>,
                    \<lparr>ret_stat = ReturnStatement None (Some ValueExpression), hasValue = True\<rparr>])) =
   [\<lparr>severity = Error, code = ReturnValueUnexpected,
     message = ''Function as void should not return a value'',
     diag_range = Some \<lparr>range_start = (1, 0), range_end = (1, 8)\<rparr>, diag_file = ''main.brs'',
     tags = []\<rparr>,
    \<lparr>severity = Error, code = ReturnValueUnexpected,
     message = ''Function as void should not return a value'',
     diag_range = Some \<lparr>range_start = (0, 0), range_end = (0, 20)\<rparr>, diag_file = ''main.brs'',
     tags = []\<rparr>]"
proof -
  have h: "returnTypeIsVoid ex_void_function"
    by (simp add: returnTypeIsVoid_def ex_defs)
  show ?thesis
    using h finalize_void_unexpected [OF h, where s = "ex_linter [\<lparr>ret_stat = ex_value_return, hasValue = True\<rparr>,
                       \<lparr>ret_stat = ex_bare_return, hasValue = False\<rparr>,
                       \<lparr>ret_stat = ReturnStatement None (Some ValueExpression), hasValue = True\<rparr>]"
        and sev = ex_rules and f = "''main.brs''" and lst = 0]
    by (simp add: ex_defs unexpectedDiagnostic_def funRange_def createRangeFromPositions_def rangeOr_def)
qed

text \<open>
  Claim C7. When the declared return type is not \<open>void\<close>, the finalizer pushes
  \<open>ReturnValueMissing\<close> diagnostics iff \<open>requiresReturnValue\<close> holds and the number of
  captured returns carrying a value differs from the number of captured returns; it then
  pushes exactly one for each captured return lacking a value, in order, at the range of
  that return statement or, when that is missing, at the range of the function signature.
\<close>

theorem finalize_return_value_missing:
  assumes "\<not> returnTypeIsVoid func"
  shows "filter (\<lambda>d. code d = ReturnValueMissing) (emitted s (finalize sev f func lst s)) =
           (if requiresReturnValue func (fun_returns s) \<and>
               length (filter hasValue (fun_returns s)) \<noteq> length (fun_returns s)
            then map (missingDiagnostic sev f func) (filter (\<lambda>r. \<not> hasValue r) (fun_returns s))
            else [])
         \<and> (\<exists>d \<in> set (emitted s (finalize sev f func lst s)). code d = ReturnValueMissing) =
             (requiresReturnValue func (fun_returns s) \<and>
              length (filter hasValue (fun_returns s)) \<noteq> length (fun_returns s))
         \<and> (\<forall>r. code (missingDiagnostic sev f func r) = ReturnValueMissing
              \<and> diag_range (missingDiagnostic sev f func r) =
                  Some (case stat_range (ret_stat r) of Some x \<Rightarrow> x | None \<Rightarrow> funRange func))"
proof -
  let ?rs = "fun_returns s"
  let ?mv = "requiresReturnValue func ?rs \<and> length (filter hasValue ?rs) \<noteq> length ?rs"
  let ?E = "emitted s (finalize sev f func lst s)"
  have 1: "filter (\<lambda>d. code d = ReturnValueMissing) ?E =
           (if ?mv then map (missingDiagnostic sev f func) (filter (\<lambda>r. \<not> hasValue r) ?rs) else [])"
    using assms by (simp add: finalize_emitted filter_code_map_same)
  have "(\<exists>d \<in> set ?E. code d = ReturnValueMissing) =
          (filter (\<lambda>d. code d = ReturnValueMissing) ?E \<noteq> [])"
    by (simp add: filter_empty_conv)
  also have "\<dots> = ?mv"
    unfolding 1 using filter_not_nonempty [of hasValue ?rs] by auto
  finally have 2: "(\<exists>d \<in> set ?E. code d = ReturnValueMissing) = ?mv" .
  have 3: "\<forall>r. code (missingDiagnostic sev f func r) = ReturnValueMissing
              \<and> diag_range (missingDiagnostic sev f func r) =
                  Some (case stat_range (ret_stat r) of Some x \<Rightarrow> x | None \<Rightarrow> funRange func)"
    by (simp add: missingDiagnostic_def rangeOr_def)
  from 1 2 3 show ?thesis by blast
qed

text \<open>
  A function with a declared return type, one return carrying a value and one bare return
  without a range.
\<close>

theorem finalize_return_value_missing_witness:
  "\<not> returnTypeIsVoid ex_function \<and>
   filter (\<lambda>d. code d = ReturnValueMissing)
     (emitted (ex_linter [\<lparr>ret_stat = ex_value_return, hasValue = True\<rparr>,
                          \<lparr>ret_stat = ex_bare_return, hasValue = False\<rparr>])
        (finalize ex_rules ''main.brs'' ex_function 0
           (ex_linter [\<lparr>ret_stat = ex_value_return, hasValue = True\<rparr>,
                       \<lparr>ret_stat = ex_bare_return, hasValue = False\<rparr>]))) =
   [\<lparr>severity = Error, code = ReturnValueMissing,
     message = ''This function should consistently return a value'',
     diag_range = Some \<lparr>range_start = (0, 0), range_end = (0, 23)\<rparr>, diag_file = ''main.brs'',
     tags = []\<rparr>]"
proof -
  have h: "\<not> returnTypeIsVoid ex_function"
    by (simp add: returnTypeIsVoid_def ex_defs)
  show ?thesis
    using h finalize_return_value_missing [OF h, where s = "ex_linter [\<lparr>ret_stat = ex_value_return, hasValue = True\<rparr>,
                          \<lparr>ret_stat = ex_bare_return, hasValue = False\<rparr>]"
        and sev = ex_rules and f = "''main.brs''" and lst = 0]
    by (simp add: ex_defs requiresReturnValue_def missingDiagnostic_def funRange_def
        createRangeFromPositions_def rangeOr_def)
qed

section \<open>The three callbacks\<close>

text \<open>
  Claim C2. \<open>openBlock\<close> changes nothing but the \<open>branches\<close> field of the opened frame,
  which it sets: for a frame that \<open>isBranchedBlock\<close> accepts, to \<open>branchesCount\<close>, which
  is 1 + the number of else-if arms + 1 for an if statement (2 when there is no else-if
  arm; whether an else arm is written is not looked at) and 2 for any other statement;
  for a frame that \<open>isBranchedBlock\<close> rejects, to 1. \<open>branchesCount\<close> is a total function
  of the frame's statement.
\<close>

theorem openBlock_branch_count:
  "openBlock isBranchedBlock block s =
     s\<lparr>heap := (heap s)(block := (heap s block)\<lparr>branches := Some
        (if isBranchedBlock (heap s block)
         then (if isIfStatement (stat (heap s block))
               then 1 + int (length (elseIfs (stat (heap s block)))) + 1
               else 2)
         else 1)\<rparr>)\<rparr>
   \<and> branchesCount b =
       (if isIfStatement (stat b) then 1 + int (length (elseIfs (stat b))) + 1 else 2)
   \<and> branchesCount \<lparr>stat = IfStatement r [], branches = n, returns = t\<rparr> = 2"
proof -
  have bc: "\<And>b. branchesCount b =
       (if isIfStatement (stat b) then 1 + int (length (elseIfs (stat b))) + 1 else 2)"
    by (simp split: Statement.splits)
  have "openBlock isBranchedBlock block s =
     s\<lparr>heap := (heap s)(block := (heap s block)\<lparr>branches := Some
        (if isBranchedBlock (heap s block) then branchesCount (heap s block) else 1)\<rparr>)\<rparr>"
    by (simp add: openBlock_def Let_def)
  then show ?thesis
    using bc by simp
qed

text \<open>
  An if statement with two else-if arms, another branched statement, and a plain block.
\<close>

theorem openBlock_branch_count_witness:
  "branches (heap (openBlock (\<lambda>b. isIfStatement (stat b)) 1
       (ex_open\<lparr>heap := ex_store(1 := ex_frame (IfStatement None [ElseIfArm, ElseIfArm]))\<rparr>)) 1) = Some 4
   \<and> branches (heap (openBlock (\<lambda>b. \<not> isCommentStatement (stat b)) 1
       (ex_open\<lparr>heap := ex_store(1 := ex_frame (OtherStatement None))\<rparr>)) 1) = Some 2
   \<and> branches (heap (openBlock (\<lambda>b. isIfStatement (stat b)) 1
       (ex_open\<lparr>heap := ex_store(1 := ex_frame (Block None))\<rparr>)) 1) = Some 1"
  using openBlock_branch_count [where isBranchedBlock = "\<lambda>b. isIfStatement (stat b)" and block = 1
      and s = "ex_open\<lparr>heap := ex_store(1 := ex_frame (IfStatement None [ElseIfArm, ElseIfArm]))\<rparr>"]
    openBlock_branch_count [where isBranchedBlock = "\<lambda>b. \<not> isCommentStatement (stat b)" and block = 1
      and s = "ex_open\<lparr>heap := ex_store(1 := ex_frame (OtherStatement None))\<rparr>"]
    openBlock_branch_count [where isBranchedBlock = "\<lambda>b. isIfStatement (stat b)" and block = 1
      and s = "ex_open\<lparr>heap := ex_store(1 := ex_frame (Block None))\<rparr>"]
  by (simp add: ex_open_def ex_store_def ex_frame_def)

text \<open>
  Claim C3, amended. When the parent frame is not marked as returning and the visited
  statement is a return, \<open>visitStatement\<close> appends exactly one record to the captured
  returns, whose \<open>hasValue\<close> holds iff the return has an operand that is not a comment; it
  pushes no diagnostic; and it sets the \<open>returns\<close> flag of the governing frame
  (\<open>state.branch\<close> when \<open>state.ifs\<close> is set, \<open>state.parent\<close> otherwise) iff the parent frame
  has \<open>branches = 1\<close>. A return inside an arm of a conditional, the arm's frame having one
  branch, thus flips the flag of the arm's frame. When the parent frame has another branch
  count (the frame of a multi-arm conditional, say), or there is no governing frame, the
  store is unchanged: no \<open>returns\<close> flag is flipped.
\<close>

theorem visitStatement_return:
  assumes "\<not> parentReturns state s" and "isReturnStatement (stat cur)"
  shows "fun_returns (visitStatement sev f state cur s) =
           fun_returns s @
             [\<lparr>ret_stat = stat cur,
               hasValue = (case stat cur of
                             ReturnStatement r (Some e) \<Rightarrow> e \<noteq> CommentExpression
                           | _ \<Rightarrow> False)\<rparr>]
         \<and> diagnostics (visitStatement sev f state cur s) = diagnostics s
         \<and> heap (visitStatement sev f state cur s) =
             (case (if ifs state \<noteq> None then branch state else parent state) of
                None \<Rightarrow> heap s
              | Some g \<Rightarrow>
                  (case parent state of
                     None \<Rightarrow> heap s
                   | Some p \<Rightarrow>
                       if branches (heap s p) = Some 1
                       then (heap s)(g := (heap s g)\<lparr>returns := Some True\<rparr>)
                       else heap s))"
proof -
  have ce: "\<And>e. isCommentExpression e = (e = CommentExpression)"
    by (case_tac e) simp_all
  have hv: "returnHasValue (stat cur) =
      (case stat cur of ReturnStatement r (Some e) \<Rightarrow> e \<noteq> CommentExpression | _ \<Rightarrow> False)"
    by (cases "stat cur" rule: returnHasValue.cases) (simp_all add: ce)
  show ?thesis
    using assms unfolding hv [symmetric]
    by (auto simp add: visitStatement_def Let_def returnBlock_def parentBranchesIsOne_def
        markReturns_def split: option.splits)
qed

text \<open>
  A return with a value inside the arm (frame 2) of an if statement (frame 1) marks the
  arm and not the if statement; the same return directly under a frame with two branches
  marks nothing.
\<close>

theorem visitStatement_return_witness:
  "\<not> parentReturns (ex_state (Some 2) (Some 1) (Some 2)) ex_open
   \<and> isReturnStatement (stat (ex_frame ex_value_return))
   \<and> fun_returns (visitStatement ex_rules ''main.brs'' (ex_state (Some 2) (Some 1) (Some 2))
        (ex_frame ex_value_return) ex_open) = [\<lparr>ret_stat = ex_value_return, hasValue = True\<rparr>]
   \<and> returns (heap (visitStatement ex_rules ''main.brs'' (ex_state (Some 2) (Some 1) (Some 2))
        (ex_frame ex_value_return) ex_open) 2) = Some True
   \<and> returns (heap (visitStatement ex_rules ''main.brs'' (ex_state (Some 2) (Some 1) (Some 2))
        (ex_frame ex_value_return) ex_open) 1) = None
   \<and> heap (visitStatement ex_rules ''main.brs'' (ex_state (Some 1) None None)
        (ex_frame ex_value_return) ex_open) = ex_store"
proof -
  have h1: "\<not> parentReturns (ex_state (Some 2) (Some 1) (Some 2)) ex_open"
    by (simp add: parentReturns_def ex_state_def ex_open_def ex_store_def truthy_def)
  have h1': "\<not> parentReturns (ex_state (Some 1) None None) ex_open"
    by (simp add: parentReturns_def ex_state_def ex_open_def ex_store_def truthy_def)
  have h2: "isReturnStatement (stat (ex_frame ex_value_return))"
    by (simp add: ex_frame_def ex_value_return_def)
  show ?thesis
    using h1 h2
      visitStatement_return [OF h1 h2, where sev = ex_rules and f = "''main.brs''"]
      visitStatement_return [OF h1' h2, where sev = ex_rules and f = "''main.brs''"]
    by (simp add: ex_state_def ex_open_def ex_store_def ex_frame_def ex_value_return_def)
qed

text \<open>
  Claim C3, as stated, fails in its last clause: a return visited inside one arm (frame 2,
  one branch) of a conditional with two branches (frame 1) flips the \<open>returns\<close> flag of
  the arm's frame.
\<close>

theorem return_in_arm_counterexample:
  "isIfStatement (stat (heap ex_open 1)) \<and> branches (heap ex_open 1) = Some 2 \<and>
   branches (heap ex_open 2) = Some 1 \<and> returns (heap ex_open 2) = None \<and>
   returns (heap (visitStatement ex_rules ''main.brs'' (ex_state (Some 2) (Some 1) (Some 2))
     (ex_frame ex_value_return) ex_open) 2) = Some True"
  by (simp add: visitStatement_def parentReturns_def parentBranchesIsOne_def returnBlock_def
      markReturns_def truthy_def Let_def ex_state_def ex_open_def ex_store_def ex_frame_def
      ex_value_return_def)

lemma visitStatement_emitted_codes:
  "list_all (\<lambda>d. code d = UnreachableCode) (emitted s (visitStatement sev f state cur s))"
  by (simp add: visitStatement_def emitted_def Let_def unreachableDiagnostic_def
      split: option.splits)

text \<open>
  Claim C4. \<open>closeBlock\<close>: without a parent frame it is the finalizer run on the closed
  frame. With a parent frame \<open>p\<close> it pushes no diagnostic and changes at most \<open>p\<close>: when the
  closed statement is an if statement, \<open>p.returns\<close> is set if the closed frame's \<open>branches\<close>
  is 0; otherwise, when the closed frame is marked as returning and \<open>p\<close> is the frame of an
  if statement, \<open>p.branches\<close> is decremented by one (a missing count is read as 2); in
  every other case the store is unchanged. The finalizer runs nowhere else: \<open>openBlock\<close>
  pushes no diagnostic and \<open>visitStatement\<close> pushes only \<open>UnreachableCode\<close>.
\<close>

theorem closeBlock_reconcile:
  "closeBlock sev f func state closed s =
     (case parent state of
        None \<Rightarrow> finalize sev f func closed s
      | Some p \<Rightarrow>
          s\<lparr>heap :=
            (if isIfStatement (stat (heap s closed)) then
               (if branches (heap s closed) = Some 0
                then (heap s)(p := (heap s p)\<lparr>returns := Some True\<rparr>)
                else heap s)
             else if truthy (returns (heap s closed)) \<and> isIfStatement (stat (heap s p)) then
               (heap s)(p := (heap s p)\<lparr>branches :=
                  Some ((case branches (heap s p) of None \<Rightarrow> 2 | Some n \<Rightarrow> n) - 1)\<rparr>)
             else heap s)\<rparr>)
   \<and> emitted s (openBlock isBranchedBlock block s) = []
   \<and> list_all (\<lambda>d. code d = UnreachableCode) (emitted s (visitStatement sev f state cur s))
   \<and> emitted s (closeBlock sev f func state closed s) =
       (case parent state of None \<Rightarrow> emitted s (finalize sev f func closed s) | Some p \<Rightarrow> [])"
proof -
  have 1: "closeBlock sev f func state closed s =
     (case parent state of
        None \<Rightarrow> finalize sev f func closed s
      | Some p \<Rightarrow>
          s\<lparr>heap :=
            (if isIfStatement (stat (heap s closed)) then
               (if branches (heap s closed) = Some 0
                then (heap s)(p := (heap s p)\<lparr>returns := Some True\<rparr>)
                else heap s)
             else if truthy (returns (heap s closed)) \<and> isIfStatement (stat (heap s p)) then
               (heap s)(p := (heap s p)\<lparr>branches :=
                  Some ((case branches (heap s p) of None \<Rightarrow> 2 | Some n \<Rightarrow> n) - 1)\<rparr>)
             else heap s)\<rparr>)"
    by (simp add: closeBlock_def markReturns_def split: option.splits)
  have 2: "emitted s (openBlock isBranchedBlock block s) = []"
    by (simp add: openBlock_def emitted_def Let_def)
  have 3: "emitted s (closeBlock sev f func state closed s) =
       (case parent state of None \<Rightarrow> emitted s (finalize sev f func closed s) | Some p \<Rightarrow> [])"
    by (simp add: closeBlock_def emitted_def split: option.splits)
  from 1 2 3 visitStatement_emitted_codes show ?thesis by blast
qed

text \<open>
  Closing a returning arm under an if statement with two branches left; closing an if
  statement with no branch left; closing one with two branches left; closing the outermost
  frame.
\<close>

theorem closeBlock_reconcile_witness:
  "branches (heap (closeBlock ex_rules ''main.brs'' ex_function (ex_state (Some 1) None None) 3
      ex_open) 1) = Some 1
   \<and> returns (heap (closeBlock ex_rules ''main.brs'' ex_function (ex_state (Some 0) None None) 1
      (ex_open\<lparr>heap := ex_store(1 := \<lparr>stat = IfStatement None [], branches = Some 0, returns = None\<rparr>)\<rparr>)) 0) = Some True
   \<and> heap (closeBlock ex_rules ''main.brs'' ex_function (ex_state (Some 0) None None) 1 ex_open) = ex_store
   \<and> closeBlock ex_rules ''main.brs'' ex_function (ex_state None None None) 0 ex_open =
       finalize ex_rules ''main.brs'' ex_function 0 ex_open"
  using closeBlock_reconcile [where sev = ex_rules and f = "''main.brs''" and func = ex_function
      and state = "ex_state (Some 1) None None" and closed = 3 and s = ex_open]
    closeBlock_reconcile [where sev = ex_rules and f = "''main.brs''" and func = ex_function
      and state = "ex_state (Some 0) None None" and closed = 1
      and s = "ex_open\<lparr>heap := ex_store(1 := \<lparr>stat = IfStatement None [], branches = Some 0, returns = None\<rparr>)\<rparr>"]
    closeBlock_reconcile [where sev = ex_rules and f = "''main.brs''" and func = ex_function
      and state = "ex_state (Some 0) None None" and closed = 1 and s = ex_open]
    closeBlock_reconcile [where sev = ex_rules and f = "''main.brs''" and func = ex_function
      and state = "ex_state None None None" and closed = 0 and s = ex_open]
  by (simp add: ex_state_def ex_open_def ex_store_def truthy_def)

lemma visitStatement_parent_returns:
  assumes "parent state = Some p" and "truthy (returns (heap s p))"
  shows "visitStatement sev f state cur s =
           (if isCommentStatement (stat cur) then s
            else s\<lparr>diagnostics := diagnostics s @ [unreachableDiagnostic sev f (stat cur)]\<rparr>)"
  using assms by (simp add: visitStatement_def parentReturns_def)

lemma visitStatements_parent_returns:
  assumes "parent state = Some p" and "truthy (returns (heap s p))"
  shows "visitStatements sev f state cs s =
           s\<lparr>diagnostics := diagnostics s @
               map (\<lambda>c. unreachableDiagnostic sev f (stat c))
                 (filter (\<lambda>c. \<not> isCommentStatement (stat c)) cs)\<rparr>"
  using assms
proof (induction cs arbitrary: s)
  case Nil
  then show ?case by simp
next
  case (Cons c cs)
  let ?s1 = "visitStatement sev f state c s"
  have s1: "?s1 = (if isCommentStatement (stat c) then s
            else s\<lparr>diagnostics := diagnostics s @ [unreachableDiagnostic sev f (stat c)]\<rparr>)"
    using Cons.prems by (rule visitStatement_parent_returns)
  then have "truthy (returns (heap ?s1 p))"
    using Cons.prems by simp
  with Cons.IH [of ?s1] Cons.prems
  have "visitStatements sev f state cs ?s1 =
          ?s1\<lparr>diagnostics := diagnostics ?s1 @
               map (\<lambda>c. unreachableDiagnostic sev f (stat c))
                 (filter (\<lambda>c. \<not> isCommentStatement (stat c)) cs)\<rparr>"
    by blast
  then show ?case
    by (simp add: s1)
qed

text \<open>
  Claim C5. When the parent frame is marked \<open>returns = true\<close>, \<open>visitStatement\<close> leaves the
  state unchanged for a comment and otherwise only pushes one \<open>UnreachableCode\<close>
  diagnostic, with the severity of the \<open>unreachableCode\<close> rule, the statement's range and
  the tag \<open>Unnecessary\<close>. Visiting any run of statements at such a position pushes exactly
  one such diagnostic for each statement that is not a comment, in order.
\<close>

theorem visitStatement_unreachable:
  assumes "parent state = Some p" and "returns (heap s p) = Some True"
  shows "visitStatement sev f state cur s =
           (if isCommentStatement (stat cur) then s
            else s\<lparr>diagnostics := diagnostics s @
                   [\<lparr>severity = unreachableCode sev, code = UnreachableCode,
                     message = ''Unreachable code'', diag_range = stat_range (stat cur),
                     diag_file = f, tags = [Unnecessary]\<rparr>]\<rparr>)
         \<and> emitted s (visitStatements sev f state cs s) =
             map (\<lambda>c. unreachableDiagnostic sev f (stat c))
               (filter (\<lambda>c. \<not> isCommentStatement (stat c)) cs)"
proof -
  have t: "truthy (returns (heap s p))"
    using assms(2) by (simp add: truthy_def)
  have 1: "visitStatement sev f state cur s =
           (if isCommentStatement (stat cur) then s
            else s\<lparr>diagnostics := diagnostics s @
                   [\<lparr>severity = unreachableCode sev, code = UnreachableCode,
                     message = ''Unreachable code'', diag_range = stat_range (stat cur),
                     diag_file = f, tags = [Unnecessary]\<rparr>]\<rparr>)"
    using visitStatement_parent_returns [OF assms(1) t]
    by (simp add: unreachableDiagnostic_def)
  have 2: "emitted s (visitStatements sev f state cs s) =
             map (\<lambda>c. unreachableDiagnostic sev f (stat c))
               (filter (\<lambda>c. \<not> isCommentStatement (stat c)) cs)"
    by (simp add: visitStatements_parent_returns [OF assms(1) t] emitted_def)
  from 1 2 show ?thesis by blast
qed

text \<open>
  A statement, a comment and a return visited after the enclosing block (frame 3)
  returned.
\<close>

theorem visitStatement_unreachable_witness:
  "parent (ex_state (Some 3) None None) = Some 3
   \<and> returns (heap ex_open 3) = Some True
   \<and> emitted ex_open (visitStatements ex_rules ''main.brs'' (ex_state (Some 3) None None)
        [ex_frame (OtherStatement (Some ex_range)), ex_frame (CommentStatement None),
         ex_frame ex_value_return] ex_open) =
      [\<lparr>severity = Info, code = UnreachableCode, message = ''Unreachable code'',
        diag_range = Some ex_range, diag_file = ''main.brs'', tags = [Unnecessary]\<rparr>,
       \<lparr>severity = Info, code = UnreachableCode, message = ''Unreachable code'',
        diag_range = Some ex_range, diag_file = ''main.brs'', tags = [Unnecessary]\<rparr>]"
proof -
  have h1: "parent (ex_state (Some 3) None None) = Some 3"
    by (simp add: ex_state_def)
  have h2: "returns (heap ex_open 3) = Some True"
    by (simp add: ex_open_def ex_store_def)
  have "emitted ex_open (visitStatements ex_rules ''main.brs'' (ex_state (Some 3) None None)
        [ex_frame (OtherStatement (Some ex_range)), ex_frame (CommentStatement None),
         ex_frame ex_value_return] ex_open) =
      map (\<lambda>c. unreachableDiagnostic ex_rules ''main.brs'' (stat c))
        (filter (\<lambda>c. \<not> isCommentStatement (stat c))
           [ex_frame (OtherStatement (Some ex_range)), ex_frame (CommentStatement None),
            ex_frame ex_value_return])"
    by (rule visitStatement_unreachable [OF h1 h2, THEN conjunct2])
  then show ?thesis
    using h1 h2
    by (simp add: unreachableDiagnostic_def ex_frame_def ex_value_return_def ex_rules_def)
qed

text \<open>
  Claim C10. A return statement visited while the parent frame is marked \<open>returns = true\<close>
  is not appended to the captured returns and changes no frame; hence what the finalizer
  pushes afterwards, for any function, configuration and closed frame, is what it would
  have pushed had the return not been visited.
\<close>

theorem unreachable_return_ignored:
  assumes "parent state = Some p" and "returns (heap s p) = Some True"
    and "isReturnStatement (stat cur)"
  shows "fun_returns (visitStatement sev f state cur s) = fun_returns s
         \<and> heap (visitStatement sev f state cur s) = heap s
         \<and> emitted (visitStatement sev f state cur s)
              (finalize sev' f' func lst (visitStatement sev f state cur s)) =
             emitted s (finalize sev' f' func lst s)"
proof -
  have t: "truthy (returns (heap s p))"
    using assms(2) by (simp add: truthy_def)
  have nc: "\<not> isCommentStatement (stat cur)"
    using assms(3) by (cases "stat cur") simp_all
  have v: "visitStatement sev f state cur s =
             s\<lparr>diagnostics := diagnostics s @ [unreachableDiagnostic sev f (stat cur)]\<rparr>"
    using visitStatement_parent_returns [OF assms(1) t] nc by simp
  show ?thesis
    unfolding v by (simp add: finalize_emitted)
qed

text \<open>
  An unreachable return with a value in a function declared \<open>void\<close>: no
  \<open>ReturnValueUnexpected\<close> follows.
\<close>

theorem unreachable_return_ignored_witness:
  "parent (ex_state (Some 3) None None) = Some 3
   \<and> returns (heap ex_open 3) = Some True
   \<and> isReturnStatement (stat (ex_frame ex_value_return))
   \<and> fun_returns (visitStatement ex_rules ''main.brs'' (ex_state (Some 3) None None)
        (ex_frame ex_value_return) ex_open) = []
   \<and> heap (visitStatement ex_rules ''main.brs'' (ex_state (Some 3) None None)
        (ex_frame ex_value_return) ex_open) = ex_store
   \<and> emitted (visitStatement ex_rules ''main.brs'' (ex_state (Some 3) None None)
        (ex_frame ex_value_return) ex_open)
        (finalize ex_rules ''main.brs'' ex_void_function 3
           (visitStatement ex_rules ''main.brs'' (ex_state (Some 3) None None)
              (ex_frame ex_value_return) ex_open)) = []"
proof -
  have h1: "parent (ex_state (Some 3) None None) = Some 3"
    by (simp add: ex_state_def)
  have h2: "returns (heap ex_open 3) = Some True"
    by (simp add: ex_open_def ex_store_def)
  have h3: "isReturnStatement (stat (ex_frame ex_value_return))"
    by (simp add: ex_frame_def ex_value_return_def)
  have e: "emitted ex_open (finalize ex_rules ''main.brs'' ex_void_function 3 ex_open) = []"
    by (simp add: finalize_emitted ex_open_def returnTypeIsVoid_def ex_defs)
  show ?thesis
    using h1 h2 h3 unreachable_return_ignored [OF h1 h2 h3, where sev = ex_rules
        and f = "''main.brs''" and sev' = ex_rules and f' = "''main.brs''"
        and func = ex_void_function and lst = 3]
    by (simp add: e) (simp add: ex_open_def)
qed

text \<open>
  Claim C9. The callbacks and the finalizer are total functions of their well-typed
  inputs, a frame that \<open>isBranchedBlock\<close> rejects is opened with one branch, and every
  diagnostic of the finalizer has a range, that of the function signature when the return
  statement has none (\<open>finalize_diagnostics_have_range\<close>). The \<open>UnreachableCode\<close> diagnostic of
  \<open>visitStatement\<close>, however, takes \<open>curr.stat.range\<close> as it is: an unreachable statement
  without a range yields a diagnostic without a range.
\<close>

theorem unreachable_diagnostic_without_range:
  "map diag_range
     (emitted ex_open
        (visitStatement ex_rules ''main.brs'' (ex_state (Some 3) None None)
           (ex_frame (OtherStatement None)) ex_open)) = [None]"
  by (simp add: visitStatement_def parentReturns_def emitted_def unreachableDiagnostic_def
      ex_state_def ex_open_def ex_store_def ex_frame_def truthy_def)

section \<open>The whole analysis\<close>






lemma quiet_frame: "quiet q g s s' \<Longrightarrow> a < q \<Longrightarrow> a \<noteq> g \<Longrightarrow> heap s' a = heap s a"
  by (simp add: quiet_def)




lemma marked_marked [simp]: "marked (marked b) = marked b"
  by (simp add: marked_def)

lemma marked_fields [simp]:
  "stat (marked b) = stat b" "branches (marked b) = branches b" "returns (marked b) = Some True"
  by (simp_all add: marked_def)




























text \<open>
  The classification is needed: were \<open>isBranchedBlock\<close> to accept the body block, a
  function consisting of one return with a value would be reported.
\<close>

lemma isBranchedBlock_must_reject_blocks:
  "map code (diagnostics (analyse ex_rules ''main.brs'' ex_function (\<lambda>b. True)
      (ex_block [ex_return]) ex_store)) = [UnsafeReturnValue]"
  by code_simp




end
